theory Spec2Isabelle
  imports Main
begin

section \<open>Platform string operations used by the middleware\<close>

text \<open>
  JavaScript strings are modelled by \<^typ>\<open>string\<close>, read as the UTF-8 bytes of the text:
  this is what \<^verbatim>\<open>Buffer.from(s)\<close> and \<^verbatim>\<open>Buffer.byteLength(s)\<close> see, and it is
  one-to-one on well-formed text (request paths are ASCII after URL parsing).
\<close>

fun starts_with :: "string \<Rightarrow> string \<Rightarrow> bool" where
  "starts_with s [] = True"
| "starts_with [] (p # ps) = False"
| "starts_with (c # cs) (p # ps) = (c = p \<and> starts_with cs ps)"

definition ends_with :: "string \<Rightarrow> string \<Rightarrow> bool" where
  "ends_with s suf = starts_with (rev s) (rev suf)"

subsection \<open>\<^verbatim>\<open>Buffer.from(s).toString('base64')\<close>\<close>

definition b64_alphabet :: string where
  "b64_alphabet = ''ABCDEFGHIJKLMNOPQRSTUVWXYZabcdefghijklmnopqrstuvwxyz0123456789+/''"

definition b64_char :: "nat \<Rightarrow> char" where
  "b64_char n = b64_alphabet ! n"

text \<open>Three bytes give four digits; one or two trailing bytes are padded with \<open>=\<close>.\<close>

fun base64 :: "string \<Rightarrow> string" where
  "base64 [] = []"
| "base64 [a] =
     (let x = (of_char a :: nat)
      in [b64_char (x div 4), b64_char ((x mod 4) * 16), CHR ''='', CHR ''=''])"
| "base64 [a, b] =
     (let x = (of_char a :: nat); y = (of_char b :: nat)
      in [b64_char (x div 4), b64_char ((x mod 4) * 16 + y div 16),
          b64_char ((y mod 16) * 4), CHR ''=''])"
| "base64 (a # b # c # rest) =
     (let x = (of_char a :: nat); y = (of_char b :: nat); z = (of_char c :: nat)
      in [b64_char (x div 4), b64_char ((x mod 4) * 16 + y div 16),
          b64_char ((y mod 16) * 4 + z div 64), b64_char (z mod 64)] @ base64 rest)"

text \<open>
  A decoder, used only in the proofs below to show that \<^const>\<open>base64\<close> loses nothing.
\<close>

definition b64_index :: "char \<Rightarrow> nat" where
  "b64_index c = length (takeWhile (\<lambda>d. d \<noteq> c) b64_alphabet)"

fun unbase64 :: "string \<Rightarrow> string" where
  "unbase64 (p # q # r # s # rest) =
     (let i = b64_index p; j = b64_index q; k = b64_index r; l = b64_index s
      in if r = CHR ''='' then [char_of (i * 4 + j div 16)]
         else if s = CHR ''='' then [char_of (i * 4 + j div 16), char_of ((j mod 16) * 16 + k div 4)]
         else char_of (i * 4 + j div 16) # char_of ((j mod 16) * 16 + k div 4)
                # char_of ((k mod 4) * 64 + l) # unbase64 rest)"
| "unbase64 _ = []"

subsection \<open>Regular expressions of the middleware\<close>

text \<open>
  \<^verbatim>\<open>String(req.headers['if-none-match'])\<close>: an absent header is \<^verbatim>\<open>undefined\<close>, which
  \<^verbatim>\<open>String\<close> prints as the text \<^verbatim>\<open>undefined\<close>.
\<close>

definition js_String :: "string option \<Rightarrow> string" where
  "js_String v = (case v of None \<Rightarrow> ''undefined'' | Some s \<Rightarrow> s)"

text \<open>\<^verbatim>\<open>.replace(/-(gz|br)$/g, '')\<close>: the pattern is anchored at the end, so it matches once at most.\<close>

definition strip_compression :: "string \<Rightarrow> string" where
  "strip_compression s =
     (if ends_with s ''-gz'' \<or> ends_with s ''-br'' then take (length s - 3) s else s)"

text \<open>\<^verbatim>\<open>url.pathname.replace(/^\//, '')\<close>\<close>

fun strip_leading_slash :: "string \<Rightarrow> string" where
  "strip_leading_slash (c # cs) = (if c = CHR ''/'' then cs else c # cs)"
| "strip_leading_slash [] = []"

text \<open>\<^verbatim>\<open>/\.((css|s[ac]ss|less)|wasm|txt|json)$/.test(meta.path)\<close>, and its stylesheet group.\<close>

definition stylesheet_path :: "string \<Rightarrow> bool" where
  "stylesheet_path p =
     (ends_with p ''.css'' \<or> ends_with p ''.scss'' \<or> ends_with p ''.sass'' \<or> ends_with p ''.less'')"

definition asset_path :: "string \<Rightarrow> bool" where
  "asset_path p =
     (stylesheet_path p \<or> ends_with p ''.wasm'' \<or> ends_with p ''.txt'' \<or> ends_with p ''.json'')"

subsection \<open>\<^verbatim>\<open>JSON.stringify\<close> of a string\<close>

definition hex_digit :: "nat \<Rightarrow> char" where
  "hex_digit n = ''0123456789abcdef'' ! n"

definition json_escape :: "char \<Rightarrow> string" where
  "json_escape c =
     (if c = CHR 0x22 then [CHR 0x5C, CHR 0x22]
      else if c = CHR 0x5C then [CHR 0x5C, CHR 0x5C]
      else if c = CHR 0x08 then [CHR 0x5C, CHR ''b'']
      else if c = CHR 0x0C then [CHR 0x5C, CHR ''f'']
      else if c = CHR 0x0A then [CHR 0x5C, CHR ''n'']
      else if c = CHR 0x0D then [CHR 0x5C, CHR ''r'']
      else if c = CHR 0x09 then [CHR 0x5C, CHR ''t'']
      else if (of_char c :: nat) < 32
        then [CHR 0x5C, CHR ''u'', CHR ''0'', CHR ''0'',
              hex_digit ((of_char c :: nat) div 16), hex_digit ((of_char c :: nat) mod 16)]
      else [c])"

definition json_stringify :: "string \<Rightarrow> string" where
  "json_stringify s = CHR 0x22 # concat (map json_escape s) @ [CHR 0x22]"

subsection \<open>Reading a string literal\<close>




subsection \<open>\<^verbatim>\<open>path.join\<close> (POSIX)\<close>

fun split_on :: "char \<Rightarrow> string \<Rightarrow> string list" where
  "split_on c [] = [[]]"
| "split_on c (x # xs) =
     (if x = c then [] # split_on c xs
      else (case split_on c xs of [] \<Rightarrow> [[x]] | s # ss \<Rightarrow> (x # s) # ss))"

text \<open>
  Node's \<^verbatim>\<open>normalizeString\<close>: empty and \<^verbatim>\<open>.\<close> segments are dropped; \<^verbatim>\<open>..\<close> removes the
  segment before it, and is kept only where nothing is left to remove and the path is relative.
  The segments collected so far are held in reverse.
\<close>

fun normalize_segments :: "bool \<Rightarrow> string list \<Rightarrow> string list \<Rightarrow> string list" where
  "normalize_segments up acc [] = rev acc"
| "normalize_segments up acc (s # ss) =
     (if s = [] \<or> s = ''.'' then normalize_segments up acc ss
      else if s = ''..'' then
        (case acc of
           t # ts \<Rightarrow>
             if t \<noteq> ''..'' then normalize_segments up ts ss
             else normalize_segments up (if up then ''..'' # acc else acc) ss
         | [] \<Rightarrow> normalize_segments up (if up then [''..''] else []) ss)
      else normalize_segments up (s # acc) ss)"

fun join_segments :: "string list \<Rightarrow> string" where
  "join_segments [] = []"
| "join_segments [s] = s"
| "join_segments (s # t # ts) = s @ ''/'' @ join_segments (t # ts)"

definition path_normalize :: "string \<Rightarrow> string" where
  "path_normalize p =
     (if p = [] then ''.''
      else
        (let isAbsolute = (hd p = CHR ''/'');
             trailingSeparator = (last p = CHR ''/'');
             body = join_segments (normalize_segments (\<not> isAbsolute) [] (split_on CHR ''/'' p))
         in if body = [] then (if isAbsolute then ''/'' else if trailingSeparator then ''./'' else ''.'')
            else (if isAbsolute then ''/'' else []) @ body @ (if trailingSeparator then ''/'' else [])))"

definition path_join :: "string \<Rightarrow> string \<Rightarrow> string" where
  "path_join a b =
     (let joined = (if a = [] then b else if b = [] then a else a @ ''/'' @ b)
      in if joined = [] then ''.'' else path_normalize joined)"

subsection \<open>The request's resolved package metadata and its ETag\<close>

text \<open>
  \<^verbatim>\<open>normalizeSpecifier\<close> returns an object of which the middleware reads the fields
  \<^verbatim>\<open>specifier\<close>, \<^verbatim>\<open>version\<close> and \<^verbatim>\<open>path\<close>.
\<close>

record meta =
  specifier :: string
  version :: string
  path :: string

text \<open>
  \<^verbatim>\<open>const etag = Buffer.from(`${meta.specifier}${meta.version}`).toString('base64');\<close>
\<close>

definition etag_of :: "meta \<Rightarrow> string" where
  "etag_of m = base64 (specifier m @ version m)"

section \<open>The bundling pipeline (\<^verbatim>\<open>bundleNpmModule\<close>)\<close>

text \<open>
  A thrown value: \<^verbatim>\<open>Error(message)\<close>, or a \<^verbatim>\<open>TypeError\<close> raised by the platform
  (\<^verbatim>\<open>path.join(undefined, id)\<close>, \<^verbatim>\<open>output[0].code\<close> on an empty output).
\<close>

datatype error = Error string | TypeError

subsection \<open>Load hooks\<close>

text \<open>
  A \<^verbatim>\<open>load\<close> hook throws, returns \<^verbatim>\<open>undefined\<close> (the request goes on to the next
  plugin), or returns the module's source. Its console lines are returned with the result.
\<close>

datatype load_result = Throws error | Declined | Loaded string

type_synonym load_hook = "string \<Rightarrow> string list \<times> load_result"

record plugin =
  name :: string
  load :: load_hook

definition no_load :: load_hook where
  "no_load s = ([], Declined)"

text \<open>The \<^verbatim>\<open>no-builtins\<close> plugin.\<close>

definition no_builtins_load :: load_hook where
  "no_builtins_load s =
     (if s = ''fs'' \<or> s = ''path'' then ([], Loaded ''export default {};'') else ([], Declined))"

text \<open>\<^verbatim>\<open>id.replace(/^\0?\.\.?\/node_modules/, '/@npm')\<close>\<close>

definition node_modules_to_npm :: "string \<Rightarrow> string" where
  "node_modules_to_npm ident =
     (let s = (if ident \<noteq> [] \<and> hd ident = CHR 0x00 then tl ident else ident)
      in if starts_with s ''./node_modules'' then ''/@npm'' @ drop 14 s
         else if starts_with s ''../node_modules'' then ''/@npm'' @ drop 15 s
         else ident)"

text \<open>
  The \<^verbatim>\<open>load\<close> hook of the \<^verbatim>\<open>npm-asset\<close> plugin (the object literal is read with the comma
  that separates \<^verbatim>\<open>transform\<close> from \<^verbatim>\<open>load\<close>). No file is read: a request the test
  accepts is answered with a module that exports the asset's URL.
\<close>

definition npm_asset_load :: "string option \<Rightarrow> load_hook" where
  "npm_asset_load cwd ident =
     (case cwd of
        None \<Rightarrow> ([], Throws TypeError)
      | Some root \<Rightarrow>
          (let file = path_join root ident
           in if starts_with file root
              then ([], Loaded (''export default '' @ [CHR 0x22] @ node_modules_to_npm ident
                                  @ [CHR 0x22] @ '';''))
              else ([''DONT LOAD '' @ ident], Declined)))"

text \<open>The \<^verbatim>\<open>load\<close> hook of the \<^verbatim>\<open>never-disk\<close> plugin.\<close>

definition never_disk_load :: load_hook where
  "never_disk_load s = ([''LOADING '' @ json_stringify s], Throws (Error ''local access not allowed''))"

text \<open>
  The compiler runs \<^verbatim>\<open>load\<close> as a hook of kind ``first'': the plugins are asked in the order
  of the \<^verbatim>\<open>plugins\<close> array, and the first that throws or returns a source ends the request.
\<close>

fun load_first :: "plugin list \<Rightarrow> load_hook" where
  "load_first [] ident = ([], Declined)"
| "load_first (p # ps) ident =
     (case load p ident of
        (out, Declined) \<Rightarrow> (case load_first ps ident of (out', r) \<Rightarrow> (out @ out', r))
      | (out, r) \<Rightarrow> (out, r))"

subsection \<open>The compiler and the other modules, as parameters\<close>

type_synonym alias_map = "(string \<times> string) list"

record 'r rollup_options =
  input :: string
  cache_option :: "'r option"
  shimMissingExports :: bool
  treeshake :: bool
  preserveEntrySignatures :: string
  plugins :: "plugin list"

record output_options =
  format :: string
  indent :: bool

record chunk =
  code :: string

record 'r rollup_bundle =
  bundle_cache :: "'r option"
  generate :: "output_options \<Rightarrow> error + chunk list"

datatype cached = Cached string

text \<open>
  What the middleware imports: the specifier and registry functions, the Cache Manager (reading
  and writing its state \<open>'c\<close>), the mime table, the debug flag and the console styling functions
  \<^verbatim>\<open>kl.dim\<close>, \<^verbatim>\<open>kl.bold\<close> and \<^verbatim>\<open>kl.magenta\<close>, the compiler (with its warm cache \<open>'r\<close>) and the
  plugins built elsewhere. An awaited or called function that can throw returns a sum.
\<close>

record ('c, 'r) deps =
  normalizeSpecifier :: "string \<Rightarrow> error + meta"
  resolvePackageVersion :: "meta \<Rightarrow> error + meta"
  getCachedBundle :: "string \<Rightarrow> meta \<Rightarrow> string option \<Rightarrow> 'c \<Rightarrow> (error + cached option) \<times> 'c"
  setCachedBundle :: "string \<Rightarrow> string \<Rightarrow> meta \<Rightarrow> string option \<Rightarrow> 'c \<Rightarrow> error + 'c"
  getMimeType :: "string \<Rightarrow> string option"
  loadPackageFile :: "meta \<Rightarrow> error + string"
  hasDebugFlag :: bool
  kl_dim :: "string \<Rightarrow> string"
  kl_bold :: "string \<Rightarrow> string"
  kl_magenta :: "string \<Rightarrow> string"
  rollup :: "'r rollup_options \<Rightarrow> error + 'r rollup_bundle"
  nodeBuiltinsPlugin :: plugin
  aliasPlugin :: "alias_map \<Rightarrow> plugin"
  npmPlugin :: "string \<Rightarrow> plugin"
  processGlobalPlugin :: plugin
  commonjs :: plugin
  json :: plugin
  wmrStylesPlugin :: "alias_map \<Rightarrow> string option \<Rightarrow> plugin"
  urlPlugin :: "string option \<Rightarrow> alias_map \<Rightarrow> plugin"
  defaultLoaders :: plugin

subsection \<open>Effects\<close>

datatype header_value = HStr string | HNum nat

datatype event =
    SetHeader string string
  | WriteHead nat "(string \<times> header_value) list"
  | End "string option"
  | Next error
  | ConsoleLog string
  | ConsoleError string error
  | ConsoleLogOutput "chunk list"
  | CallGetCachedBundle string
  | CallSendCachedBundle cached
  | CallSetCachedBundle string string
  | CallEnqueueCompress string
  | CallLoadPackageFile meta
  | CallBundleNpmModule string
  | CallRollup string
  | CallGenerate

text \<open>
  The state a request runs in: the Cache Manager's state, the module variable
  \<^verbatim>\<open>let npmCache;\<close> and, in order, what was written to the response, to the console and to
  \<^verbatim>\<open>next\<close>, and which collaborators were called.
\<close>

record ('c, 'r) world =
  cache :: 'c
  npmCache :: "'r option"
  log :: "event list"

definition emit :: "event \<Rightarrow> ('c, 'r) world \<Rightarrow> ('c, 'r) world" where
  "emit e w = w\<lparr>log := log w @ [e]\<rparr>"

record options =
  source :: string
  alias_option :: alias_map
  optimize :: "bool option"
  cwd :: "string option"

subsection \<open>\<^verbatim>\<open>bundleNpmModule\<close>\<close>

definition bundle_plugins :: "('c, 'r) deps \<Rightarrow> options \<Rightarrow> plugin list" where
  "bundle_plugins d opts =
     [nodeBuiltinsPlugin d,
      aliasPlugin d (alias_option opts),
      npmPlugin d ''/@npm'',
      processGlobalPlugin d,
      commonjs d,
      json d,
      \<lparr>name = ''no-builtins'', load = no_builtins_load\<rparr>,
      wmrStylesPlugin d (alias_option opts) (cwd opts),
      urlPlugin d (cwd opts) (alias_option opts),
      defaultLoaders d,
      \<lparr>name = ''npm-asset'', load = npm_asset_load (cwd opts)\<rparr>,
      \<lparr>name = ''never-disk'', load = never_disk_load\<rparr>]"

definition bundleNpmModule ::
  "('c, 'r) deps \<Rightarrow> string \<Rightarrow> options \<Rightarrow> ('c, 'r) world \<Rightarrow> (error + string) \<times> ('c, 'r) world" where
  "bundleNpmModule d modname opts w =
     (if source opts = ''unpkg'' then (Inl (Error ''unpkg plugin is disabled''), w)
      else
        (let w1 = emit (CallRollup modname) w
         in case rollup d \<lparr>input = modname, cache_option = npmCache w, shimMissingExports = True,
                            treeshake = False, preserveEntrySignatures = ''allow-extension'',
                            plugins = bundle_plugins d opts\<rparr> of
              Inl e \<Rightarrow> (Inl e, w1)
            | Inr b \<Rightarrow>
                (let w2 = w1\<lparr>npmCache := bundle_cache b\<rparr>;
                     w3 = emit CallGenerate w2
                 in case generate b \<lparr>format = ''es'', indent = False\<rparr> of
                      Inl e \<Rightarrow> (Inl e, w3)
                    | Inr out \<Rightarrow>
                        (let w4 = emit (ConsoleLogOutput out) w3
                         in case out of
                              [] \<Rightarrow> (Inl TypeError, w4)
                            | c # cs \<Rightarrow> (Inr (code c), w4)))))"

section \<open>The middleware (\<^verbatim>\<open>npmMiddleware\<close>)\<close>

text \<open>
  The request as the handler reads it: \<^verbatim>\<open>url.pathname\<close>,
  \<^verbatim>\<open>url.searchParams.has('module')\<close> and \<^verbatim>\<open>req.headers['if-none-match']\<close>.
\<close>

record request =
  pathname :: string
  has_module :: bool
  if_none_match :: "string option"

text \<open>How the promise of the \<^verbatim>\<open>async\<close> handler settles.\<close>

datatype outcome = Resolved | Rejected error

definition respond :: "string option \<Rightarrow> string \<Rightarrow> ('c, 'r) world \<Rightarrow> ('c, 'r) world" where
  "respond ctype body w =
     emit (End (Some body))
       (emit (WriteHead 200
          [(''content-type'', HStr (case ctype of None \<Rightarrow> ''text/plain''
                                     | Some t \<Rightarrow> if t = [] then ''text/plain'' else t)),
           (''content-length'', HNum (length body))]) w)"

definition style_proxy :: "meta \<Rightarrow> string" where
  "style_proxy m =
     ''import{style}from '' @ [CHR 0x27] @ ''/_wmr.js'' @ [CHR 0x27] @ '';'' @ [CHR 0x0A]
       @ ''style('' @ json_stringify (''/@npm/'' @ specifier m @ ''?asset'') @ '');''"



definition handleAsset ::
  "('c, 'r) deps \<Rightarrow> meta \<Rightarrow> bool \<Rightarrow> ('c, 'r) world \<Rightarrow> outcome \<times> ('c, 'r) world" where
  "handleAsset d m isModule w =
     (if isModule
      then (Resolved, respond (Some ''application/javascript;charset=utf-8'') (style_proxy m) w)
      else
        (let ctype = getMimeType d (path m);
             w1 = emit (CallLoadPackageFile m) w
         in case loadPackageFile d m of
              Inl e \<Rightarrow> (Rejected e, w1)
            | Inr body \<Rightarrow> (Resolved, respond ctype body w1)))"

text \<open>
  The line printed under the debug flag:
  \<^verbatim>\<open>`  ${kl.dim('middleware:') + kl.bold(kl.magenta('npm'))}  ${JSON.stringify(meta.specifier)}`\<close>
\<close>

definition debug_line :: "('c, 'r) deps \<Rightarrow> meta \<Rightarrow> string" where
  "debug_line d m =
     ''  '' @ kl_dim d ''middleware:'' @ kl_bold d (kl_magenta d ''npm'') @ ''  ''
       @ json_stringify (specifier m)"

text \<open>The \<^verbatim>\<open>catch\<close> block of the handler.\<close>

definition report :: "string \<Rightarrow> error \<Rightarrow> ('c, 'r) world \<Rightarrow> outcome \<times> ('c, 'r) world" where
  "report modname e w = (Resolved, emit (Next e) (emit (ConsoleError modname e) w))"

definition serve_bundle ::
  "('c, 'r) deps \<Rightarrow> options \<Rightarrow> string \<Rightarrow> meta \<Rightarrow> string \<Rightarrow> ('c, 'r) world
     \<Rightarrow> outcome \<times> ('c, 'r) world" where
  "serve_bundle d opts modname m etag w =
     (let w1 = emit (CallGetCachedBundle etag) w
      in case getCachedBundle d etag m (cwd opts) (cache w1) of
           (Inl e, c) \<Rightarrow> report modname e (w1\<lparr>cache := c\<rparr>)
         | (Inr (Some hit), c) \<Rightarrow> (Resolved, emit (CallSendCachedBundle hit) (w1\<lparr>cache := c\<rparr>))
         | (Inr None, c) \<Rightarrow>
             (case bundleNpmModule d modname opts (emit (CallBundleNpmModule modname) (w1\<lparr>cache := c\<rparr>)) of
                (Inl e, w2) \<Rightarrow> report modname e w2
              | (Inr body, w2) \<Rightarrow>
                  (let w3 = emit (End (Some body))
                              (emit (WriteHead 200 [(''content-length'', HNum (length body))]) w2);
                       w4 = emit (CallSetCachedBundle etag body) w3
                   in case setCachedBundle d etag body m (cwd opts) (cache w4) of
                        Inl e \<Rightarrow> report modname e w4
                      | Inr c' \<Rightarrow>
                          (Resolved,
                           if optimize opts \<noteq> Some False
                           then emit (CallEnqueueCompress etag) (w4\<lparr>cache := c'\<rparr>)
                           else w4\<lparr>cache := c'\<rparr>))))"

definition npmMiddleware ::
  "('c, 'r) deps \<Rightarrow> options \<Rightarrow> request \<Rightarrow> ('c, 'r) world \<Rightarrow> outcome \<times> ('c, 'r) world" where
  "npmMiddleware d opts req w =
     (let modname = strip_leading_slash (pathname req)
      in case normalizeSpecifier d modname of
           Inl e \<Rightarrow> (Rejected e, w)
         | Inr m0 \<Rightarrow>
             (case resolvePackageVersion d m0 of
                Inl e \<Rightarrow> (Resolved, emit (Next e) w)
              | Inr m \<Rightarrow>
                  (let etag = etag_of m;
                       ifNoneMatch = strip_compression (js_String (if_none_match req))
                   in if ifNoneMatch = etag
                      then (Resolved, emit (End None) (emit (WriteHead 304 []) w))
                      else
                        (let w1 = emit (SetHeader ''etag'' etag) w
                         in if asset_path (path m)
                            then handleAsset d m (has_module req) w1
                            else
                              (let w2 = emit (SetHeader ''content-type''
                                                ''application/javascript;charset=utf-8'') w1;
                                   w3 = (if hasDebugFlag d
                                         then emit (ConsoleLog (debug_line d m)) w2
                                         else w2)
                               in serve_bundle d opts modname m etag w3)))))"

text \<open>
  Whether a request gets as far as \<^verbatim>\<open>bundleNpmModule\<close>: its specifier is normalized and its
  version resolved, its ETag is not the one the client holds, its path is no asset and the
  cache lookup finds nothing.
\<close>

definition reaches_bundler ::
  "('c, 'r) deps \<Rightarrow> options \<Rightarrow> request \<Rightarrow> ('c, 'r) world \<Rightarrow> bool" where
  "reaches_bundler d opts req w =
     (case normalizeSpecifier d (strip_leading_slash (pathname req)) of
        Inl e \<Rightarrow> False
      | Inr parsed \<Rightarrow>
          (case resolvePackageVersion d parsed of
             Inl e \<Rightarrow> False
           | Inr m \<Rightarrow>
               strip_compression (js_String (if_none_match req)) \<noteq> etag_of m
               \<and> \<not> asset_path (path m)
               \<and> fst (getCachedBundle d (etag_of m) m (cwd opts) (cache w)) = Inr None))"

section \<open>The package bundler (\<^verbatim>\<open>npmBundle\<close>)\<close>



definition virtual_entry_resolveId :: "string \<Rightarrow> string option" where
  "virtual_entry_resolveId ident = (if ident = ''virtual-entry'' then Some ident else None)"

definition virtual_entry_load :: "string \<Rightarrow> string \<Rightarrow> string option" where
  "virtual_entry_load requestId ident =
     (if ident = ''virtual-entry''
      then Some (''const _foo = import('' @ [CHR 0x27] @ requestId @ [CHR 0x27] @ '');'' @ [CHR 0x0A]
                 @ ''export default _foo;'' @ [CHR 0x0A])
      else None)"




section \<open>Reading the log\<close>

text \<open>What a run added to the log, and the events of one kind in it.\<close>

definition new_events :: "('c, 'r) world \<Rightarrow> ('c, 'r) world \<Rightarrow> event list" where
  "new_events w w' = drop (length (log w)) (log w')"

fun stored :: "event list \<Rightarrow> (string \<times> string) list" where
  "stored [] = []"
| "stored (CallSetCachedBundle k b # es) = (k, b) # stored es"
| "stored (e # es) = stored es"

fun sent :: "event list \<Rightarrow> string option list" where
  "sent [] = []"
| "sent (End b # es) = b # sent es"
| "sent (e # es) = sent es"

fun reported :: "event list \<Rightarrow> error list" where
  "reported [] = []"
| "reported (Next e # es) = e # reported es"
| "reported (e # es) = reported es"

section \<open>Directory containment\<close>

text \<open>
  What ``inside the root'' means for a normalized path, in the words of the specification: the
  root itself, or a path below it. (The guard of \<^const>\<open>npm_asset_load\<close> tests the prefix of the
  text instead.)
\<close>

definition inside_root :: "string \<Rightarrow> string \<Rightarrow> bool" where
  "inside_root root file = (file = root \<or> starts_with file (root @ ''/''))"

section \<open>A small instance of the parameters\<close>

text \<open>
  Used for the concrete runs below: specifiers are split at the first slash, every version
  resolves to \<^verbatim>\<open>1.3.0\<close> unless the package name starts with \<^verbatim>\<open>missing\<close>, the Cache Manager
  is an association list from ETag to code, and the compiler's warm cache counts the builds.
\<close>

definition sample_normalizeSpecifier :: "string \<Rightarrow> error + meta" where
  "sample_normalizeSpecifier s =
     (if s = [] then Inl (Error ''Invalid specifier'')
      else Inr \<lparr>specifier = s, version = [],
                path = drop (Suc (length (takeWhile (\<lambda>c. c \<noteq> CHR ''/'') s))) s\<rparr>)"

definition sample_resolvePackageVersion :: "meta \<Rightarrow> error + meta" where
  "sample_resolvePackageVersion m =
     (if starts_with (specifier m) ''missing'' then Inl (Error ''version not found'')
      else Inr (m\<lparr>version := ''1.3.0''\<rparr>))"

definition sample_rollup :: "nat rollup_options \<Rightarrow> error + nat rollup_bundle" where
  "sample_rollup ro =
     (if input ro = ''broken/index.js'' then Inl (Error ''parse error'')
      else Inr \<lparr>bundle_cache = Some (case cache_option ro of None \<Rightarrow> 1 | Some n \<Rightarrow> Suc n),
                generate = (\<lambda>oo. if input ro = ''halfway/index.js'' then Inl (Error ''generate failed'')
                                    else Inr [\<lparr>code = ''export default 1;''\<rparr>,
                                              \<lparr>code = ''export const extra = 2;''\<rparr>])\<rparr>)"

definition sample_plugin :: "string \<Rightarrow> plugin" where
  "sample_plugin n = \<lparr>name = n, load = no_load\<rparr>"

definition sample_deps :: "((string \<times> string) list, nat) deps" where
  "sample_deps =
     \<lparr>normalizeSpecifier = sample_normalizeSpecifier,
      resolvePackageVersion = sample_resolvePackageVersion,
      getCachedBundle = (\<lambda>etag m root c. (Inr (map_option Cached (map_of c etag)), c)),
      setCachedBundle = (\<lambda>etag body m root c. Inr ((etag, body) # c)),
      getMimeType = (\<lambda>p. if ends_with p ''.css'' then Some ''text/css'' else None),
      loadPackageFile = (\<lambda>m. Inr ''body{margin:0}''),
      hasDebugFlag = False,
      kl_dim = (\<lambda>s. s),
      kl_bold = (\<lambda>s. s),
      kl_magenta = (\<lambda>s. s),
      rollup = sample_rollup,
      nodeBuiltinsPlugin = sample_plugin ''node-builtins'',
      aliasPlugin = (\<lambda>a. sample_plugin ''aliases''),
      npmPlugin = (\<lambda>publicPath. sample_plugin ''npm-plugin''),
      processGlobalPlugin = sample_plugin ''process-global'',
      commonjs = sample_plugin ''commonjs'',
      json = sample_plugin ''json'',
      wmrStylesPlugin = (\<lambda>a root. sample_plugin ''wmr-styles''),
      urlPlugin = (\<lambda>root a. sample_plugin ''url-plugin''),
      defaultLoaders = sample_plugin ''default-loaders''\<rparr>"


definition sample_options :: options where
  "sample_options = \<lparr>source = ''npm'', alias_option = [], optimize = None, cwd = Some ''/app''\<rparr>"

definition sample_world :: "((string \<times> string) list, nat) world" where
  "sample_world = \<lparr>cache = [], npmCache = None, log = []\<rparr>"

section \<open>Properties of the ETag\<close>

lemma b64_alphabet_length: "length b64_alphabet = 64"
  by (simp add: b64_alphabet_def)

lemma b64_alphabet_distinct: "distinct b64_alphabet"
  by (simp add: b64_alphabet_def)

lemma b64_alphabet_no_pad: "CHR ''='' \<notin> set b64_alphabet"
  by (simp add: b64_alphabet_def)

lemma b64_char_not_pad: "n < 64 \<Longrightarrow> b64_char n \<noteq> CHR ''=''"
  unfolding b64_char_def
  by (metis b64_alphabet_no_pad b64_alphabet_length nth_mem)

lemma b64_index_char: "n < 64 \<Longrightarrow> b64_index (b64_char n) = n"
proof -
  assume n: "n < 64"
  have "takeWhile (\<lambda>d. d \<noteq> b64_alphabet ! n) b64_alphabet = take n b64_alphabet"
    using n b64_alphabet_distinct
    by (intro takeWhile_eq_take_P_nth)
       (auto simp: b64_alphabet_length nth_eq_iff_index_eq)
  then show ?thesis
    using n by (simp add: b64_index_def b64_char_def b64_alphabet_length)
qed

lemma b64_first_byte:
  fixes x y :: nat
  assumes "y < 256"
  shows "(x div 4) * 4 + ((x mod 4) * 16 + y div 16) div 16 = x"
  using assms by (simp add: div_mult2_eq)

lemma b64_second_byte:
  fixes x y z :: nat
  assumes "y < 256" "z < 256"
  shows "(((x mod 4) * 16 + y div 16) mod 16) * 16 + ((y mod 16) * 4 + z div 64) div 4 = y"
proof -
  have "((x mod 4) * 16 + y div 16) mod 16 = y div 16"
    using assms(1) by simp
  moreover have "((y mod 16) * 4 + z div 64) div 4 = y mod 16"
    using assms(2) by (simp add: div_mult2_eq)
  ultimately show ?thesis by simp
qed

lemma b64_third_byte:
  fixes y z :: nat
  assumes "z < 256"
  shows "(((y mod 16) * 4 + z div 64) mod 4) * 64 + z mod 64 = z"
proof -
  have "((y mod 16) * 4 + z div 64) mod 4 = z div 64"
    using assms by simp
  then show ?thesis by simp
qed

lemma b64_digit_bounds:
  fixes x y z :: nat
  assumes "x < 256" "y < 256" "z < 256"
  shows "x div 4 < 64" "(x mod 4) * 16 + y div 16 < 64" "(y mod 16) * 4 + z div 64 < 64"
    "z mod 64 < 64"
  using assms by arith+

text \<open>Four digits, or two or three digits and padding, decode as follows.\<close>

lemma unbase64_digits:
  assumes "d1 < 64" "d2 < 64" "d3 < 64" "d4 < 64"
  shows "unbase64 (b64_char d1 # b64_char d2 # b64_char d3 # b64_char d4 # rest)
         = char_of (d1 * 4 + d2 div 16) # char_of ((d2 mod 16) * 16 + d3 div 4)
             # char_of ((d3 mod 4) * 64 + d4) # unbase64 rest"
  using assms by (simp add: Let_def b64_index_char b64_char_not_pad)

lemma unbase64_digits_pad1:
  assumes "d1 < 64" "d2 < 64" "d3 < 64"
  shows "unbase64 [b64_char d1, b64_char d2, b64_char d3, CHR ''='']
         = [char_of (d1 * 4 + d2 div 16), char_of ((d2 mod 16) * 16 + d3 div 4)]"
  using assms by (simp add: Let_def b64_index_char b64_char_not_pad)

lemma unbase64_digits_pad2:
  assumes "d1 < 64" "d2 < 64"
  shows "unbase64 [b64_char d1, b64_char d2, CHR ''='', CHR ''='']
         = [char_of (d1 * 4 + d2 div 16)]"
  using assms by (simp add: Let_def b64_index_char)

lemma unbase64_group:
  fixes x y z :: nat
  assumes "x < 256" "y < 256" "z < 256"
  shows "unbase64 (b64_char (x div 4) # b64_char ((x mod 4) * 16 + y div 16)
            # b64_char ((y mod 16) * 4 + z div 64) # b64_char (z mod 64) # rest)
         = char_of x # char_of y # char_of z # unbase64 rest"
  by (simp only: unbase64_digits [OF b64_digit_bounds [OF assms]]
      b64_first_byte [OF assms(2)] b64_second_byte [OF assms(2,3)] b64_third_byte [OF assms(3)])

lemma unbase64_pad1:
  fixes x y :: nat
  assumes "x < 256" "y < 256"
  shows "unbase64 [b64_char (x div 4), b64_char ((x mod 4) * 16 + y div 16),
            b64_char ((y mod 16) * 4), CHR ''='']
         = [char_of x, char_of y]"
proof -
  have z: "(0::nat) < 256" by simp
  have d3: "(y mod 16) * 4 < 64" by arith
  have e2: "(((x mod 4) * 16 + y div 16) mod 16) * 16 + ((y mod 16) * 4) div 4 = y"
    using b64_second_byte [OF assms(2) z, of x] by simp
  show ?thesis
    by (simp only: unbase64_digits_pad1 [OF b64_digit_bounds(1,2) [OF assms z] d3]
        b64_first_byte [OF assms(2)] e2)
qed

lemma unbase64_pad2:
  fixes x :: nat
  assumes "x < 256"
  shows "unbase64 [b64_char (x div 4), b64_char ((x mod 4) * 16), CHR ''='', CHR ''='']
         = [char_of x]"
proof -
  have d2: "(x mod 4) * 16 < 64" by arith
  have e1: "(x div 4) * 4 + ((x mod 4) * 16) div 16 = x" by simp
  show ?thesis
    by (simp only: unbase64_digits_pad2 [OF b64_digit_bounds(1) [OF assms assms assms] d2] e1)
qed

lemma unbase64_base64: "unbase64 (base64 s) = s"
proof (induction s rule: base64.induct)
  case 1
  show ?case by simp
next
  case (2 a)
  show ?case
    using unbase64_pad2 [of "of_char a"] by (simp add: Let_def)
next
  case (3 a b)
  show ?case
    using unbase64_pad1 [of "of_char a" "of_char b"] by (simp add: Let_def)
next
  case (4 a b c rest)
  show ?case
    using unbase64_group [of "of_char a" "of_char b" "of_char c" "base64 rest"] 4
    by (simp add: Let_def)
qed

lemma base64_inj: "base64 s = base64 t \<longleftrightarrow> s = t"
  by (metis unbase64_base64)

section \<open>The claims about the middleware\<close>

text \<open>
  Claim C1. When the \<^verbatim>\<open>if-none-match\<close> header, with a trailing \<^verbatim>\<open>-gz\<close> or \<^verbatim>\<open>-br\<close> removed, equals
  the ETag computed for the request, the handler writes status 304, ends the response with no
  body and does nothing else: the log gains exactly these two events, so neither the Cache
  Manager nor the Bundle Builder is called, and the cache and the compiler's warm cache are as
  before.
\<close>

theorem conditional_request_304:
  assumes "normalizeSpecifier d (strip_leading_slash (pathname req)) = Inr m0"
    and "resolvePackageVersion d m0 = Inr m"
    and "strip_compression (js_String (if_none_match req)) = etag_of m"
  shows "npmMiddleware d opts req w
         = (Resolved, w\<lparr>log := log w @ [WriteHead 304 [], End None]\<rparr>)"
  using assms by (simp add: npmMiddleware_def emit_def)

theorem conditional_request_304_witness:
  "npmMiddleware sample_deps sample_options
     \<lparr>pathname = ''/left-pad/index.js'', has_module = False,
      if_none_match = Some ''bGVmdC1wYWQvaW5kZXguanMxLjMuMA==-gz''\<rparr> sample_world
   = (Resolved, sample_world\<lparr>log := log sample_world @ [WriteHead 304 [], End None]\<rparr>)"
proof -
  let ?req = "\<lparr>pathname = ''/left-pad/index.js'', has_module = False,
      if_none_match = Some ''bGVmdC1wYWQvaW5kZXguanMxLjMuMA==-gz''\<rparr>"
  let ?parsed = "\<lparr>specifier = ''left-pad/index.js'', version = [], path = ''index.js''\<rparr>"
  let ?resolved = "\<lparr>specifier = ''left-pad/index.js'', version = ''1.3.0'', path = ''index.js''\<rparr>"
  have 1: "normalizeSpecifier sample_deps (strip_leading_slash (pathname ?req)) = Inr ?parsed"
    by code_simp
  have 2: "resolvePackageVersion sample_deps ?parsed = Inr ?resolved"
    by code_simp
  have 3: "strip_compression (js_String (if_none_match ?req)) = etag_of ?resolved"
    by code_simp
  show ?thesis
    by (rule conditional_request_304 [OF 1 2 3])
qed

lemma bundleNpmModule_result_cong:
  "npmCache w1 = npmCache w2 \<Longrightarrow>
   fst (bundleNpmModule d mn opts w1) = fst (bundleNpmModule d mn opts w2)"
  by (simp add: bundleNpmModule_def Let_def split: sum.splits list.splits)

text \<open>
  Claim C4. On the module bundling path (a fresh request for a path that is no asset, missing
  from the cache), a failing \<^verbatim>\<open>bundleNpmModule\<close> means that \<^verbatim>\<open>setCachedBundle\<close> is not called
  and nothing is sent: the Cache Manager's state is the one the lookup left, and the error goes
  to \<^verbatim>\<open>next\<close>.
\<close>

theorem failed_build_stores_nothing:
  assumes norm: "normalizeSpecifier d (strip_leading_slash (pathname req)) = Inr parsed"
    and res: "resolvePackageVersion d parsed = Inr m"
    and fresh: "strip_compression (js_String (if_none_match req)) \<noteq> etag_of m"
    and js: "\<not> asset_path (path m)"
    and miss: "getCachedBundle d (etag_of m) m (cwd opts) (cache w) = (Inr None, c)"
    and failed: "fst (bundleNpmModule d (strip_leading_slash (pathname req)) opts w) = Inl e"
  shows "fst (npmMiddleware d opts req w) = Resolved
       \<and> cache (snd (npmMiddleware d opts req w)) = c
       \<and> stored (new_events w (snd (npmMiddleware d opts req w))) = []
       \<and> sent (new_events w (snd (npmMiddleware d opts req w))) = []
       \<and> reported (new_events w (snd (npmMiddleware d opts req w))) = [e]"
  using assms 
  by (auto simp add: npmMiddleware_def serve_bundle_def bundleNpmModule_def report_def emit_def
      new_events_def Let_def split: sum.splits list.splits if_splits)


theorem failed_build_stores_nothing_witness:
  "fst (npmMiddleware sample_deps sample_options
          \<lparr>pathname = ''/broken/index.js'', has_module = False, if_none_match = None\<rparr> sample_world)
     = Resolved
   \<and> cache (snd (npmMiddleware sample_deps sample_options
          \<lparr>pathname = ''/broken/index.js'', has_module = False, if_none_match = None\<rparr> sample_world))
     = []
   \<and> stored (new_events sample_world (snd (npmMiddleware sample_deps sample_options
          \<lparr>pathname = ''/broken/index.js'', has_module = False, if_none_match = None\<rparr> sample_world)))
     = []
   \<and> sent (new_events sample_world (snd (npmMiddleware sample_deps sample_options
          \<lparr>pathname = ''/broken/index.js'', has_module = False, if_none_match = None\<rparr> sample_world)))
     = []
   \<and> reported (new_events sample_world (snd (npmMiddleware sample_deps sample_options
          \<lparr>pathname = ''/broken/index.js'', has_module = False, if_none_match = None\<rparr> sample_world)))
     = [Error ''parse error'']"
proof -
  let ?req = "\<lparr>pathname = ''/broken/index.js'', has_module = False, if_none_match = None\<rparr>"
  let ?parsed = "\<lparr>specifier = ''broken/index.js'', version = [], path = ''index.js''\<rparr>"
  let ?resolved = "\<lparr>specifier = ''broken/index.js'', version = ''1.3.0'', path = ''index.js''\<rparr>"
  have 1: "normalizeSpecifier sample_deps (strip_leading_slash (pathname ?req)) = Inr ?parsed"
    by code_simp
  have 2: "resolvePackageVersion sample_deps ?parsed = Inr ?resolved"
    by code_simp
  have 3: "strip_compression (js_String (if_none_match ?req)) \<noteq> etag_of ?resolved"
    by code_simp
  have 4: "\<not> asset_path (path ?resolved)"
    by code_simp
  have 5: "getCachedBundle sample_deps (etag_of ?resolved) ?resolved (cwd sample_options)
             (cache sample_world) = (Inr None, [])"
    by code_simp
  have 6: "fst (bundleNpmModule sample_deps (strip_leading_slash (pathname ?req)) sample_options
             sample_world) = Inl (Error ''parse error'')"
    by code_simp
  show ?thesis
    by (rule failed_build_stores_nothing [OF 1 2 3 4 5 6])
qed

lemma etag_equal_iff_same_text:
  "etag_of m1 = etag_of m2 \<longleftrightarrow> specifier m1 @ version m1 = specifier m2 @ version m2"
  by (simp add: etag_of_def base64_inj)

text \<open>
  Claim C2 at two different (specifier, version) pairs: the package \<^verbatim>\<open>lib\<close> at version
  \<^verbatim>\<open>11.0.0\<close> and the package \<^verbatim>\<open>lib1\<close> at version \<^verbatim>\<open>1.0.0\<close>. The ETag is computed from the two
  texts written one after the other with nothing between them, so both requests get the same
  ETag, and with it the same cache index.
\<close>

theorem etag_collision:
  "(''lib'', ''11.0.0'') \<noteq> (''lib1'', ''1.0.0'')
   \<and> etag_of \<lparr>specifier = ''lib'', version = ''11.0.0'', path = []\<rparr>
     = etag_of \<lparr>specifier = ''lib1'', version = ''1.0.0'', path = []\<rparr>"
  by (simp add: etag_of_def)

lemma etag_same_version:
  "version m1 = version m2 \<Longrightarrow> etag_of m1 = etag_of m2 \<longleftrightarrow> specifier m1 = specifier m2"
  by (simp add: etag_of_def base64_inj)

lemma etag_same_specifier:
  "specifier m1 = specifier m2 \<Longrightarrow> etag_of m1 = etag_of m2 \<longleftrightarrow> version m1 = version m2"
  by (simp add: etag_of_def base64_inj)

text \<open>
  Claim C6, as amended. \<^verbatim>\<open>npmCache\<close> is assigned once, when \<^verbatim>\<open>rollup.rollup\<close> has resolved
  and before the output is generated: a build that is refused (source \<^verbatim>\<open>unpkg\<close>) or whose
  \<^verbatim>\<open>rollup.rollup\<close> call fails leaves it as it was, and any other build, also one that fails
  later, sets it to the bundle's cache.
\<close>

theorem npmCache_assigned_after_rollup:
  "npmCache (snd (bundleNpmModule d modname opts w))
   = (if source opts = ''unpkg'' then npmCache w
      else case rollup d \<lparr>input = modname, cache_option = npmCache w, shimMissingExports = True,
                           treeshake = False, preserveEntrySignatures = ''allow-extension'',
                           plugins = bundle_plugins d opts\<rparr> of
             Inl e \<Rightarrow> npmCache w
           | Inr b \<Rightarrow> bundle_cache b)"
  by (simp add: bundleNpmModule_def emit_def Let_def split: sum.splits list.splits)

text \<open>
  The claim as written fails where \<^verbatim>\<open>bundle.generate\<close> throws: the build fails and
  \<^verbatim>\<open>npmCache\<close> has changed.
\<close>

theorem npmCache_changed_by_failed_build:
  "fst (bundleNpmModule sample_deps ''halfway/index.js'' sample_options sample_world)
     = Inl (Error ''generate failed'')
   \<and> npmCache sample_world = None
   \<and> npmCache (snd (bundleNpmModule sample_deps ''halfway/index.js'' sample_options sample_world))
     = Some 1"
  by code_simp











lemma bundleNpmModule_unpkg:
  "source opts = ''unpkg'' \<Longrightarrow>
   bundleNpmModule d modname opts w = (Inl (Error ''unpkg plugin is disabled''), w)"
  by (simp add: bundleNpmModule_def)

lemma serve_bundle_source:
  assumes "fst (getCachedBundle d etag m (cwd opts) (cache w)) \<noteq> Inr None"
  shows "serve_bundle d (opts\<lparr>source := other\<rparr>) modname m etag w
         = serve_bundle d opts modname m etag w"
proof (cases "getCachedBundle d etag m (cwd opts) (cache w)")
  case (Pair r c)
  with assms have "r \<noteq> Inr None" by simp
  then show ?thesis
  proof (cases r)
    case (Inl e)
    with Pair show ?thesis by (simp add: serve_bundle_def emit_def)
  next
    case (Inr found)
    with \<open>r \<noteq> Inr None\<close> obtain hit where "found = Some hit" by (cases found) auto
    with Pair Inr show ?thesis by (simp add: serve_bundle_def emit_def)
  qed
qed

lemma npmMiddleware_source:
  assumes "\<not> reaches_bundler d opts req w"
  shows "npmMiddleware d (opts\<lparr>source := other\<rparr>) req w = npmMiddleware d opts req w"
proof (cases "normalizeSpecifier d (strip_leading_slash (pathname req))")
  case (Inl e)
  then show ?thesis by (simp add: npmMiddleware_def)
next
  case (Inr parsed)
  note norm = this
  show ?thesis
  proof (cases "resolvePackageVersion d parsed")
    case (Inl e)
    with norm show ?thesis by (simp add: npmMiddleware_def)
  next
    case (Inr m)
    note res = this
    show ?thesis
    proof (cases "strip_compression (js_String (if_none_match req)) = etag_of m
                  \<or> asset_path (path m)")
      case True
      with norm res show ?thesis by (auto simp add: npmMiddleware_def Let_def)
    next
      case False
      with assms norm res
      have found: "fst (getCachedBundle d (etag_of m) m (cwd opts) (cache w)) \<noteq> Inr None"
        by (simp add: reaches_bundler_def)
      have same: "serve_bundle d (opts\<lparr>source := other\<rparr>) modname m (etag_of m) w'
                  = serve_bundle d opts modname m (etag_of m) w'" if "cache w' = cache w"
        for modname and w' :: "('a, 'b) world"
        using found that by (intro serve_bundle_source) simp
      from norm res False show ?thesis
        by (simp add: npmMiddleware_def Let_def same emit_def)
    qed
  qed
qed

text \<open>
  Claim C8, as amended. The source is read in \<^verbatim>\<open>bundleNpmModule\<close> only. With source
  \<^verbatim>\<open>unpkg\<close> every call of it throws \<^verbatim>\<open>Error('unpkg plugin is disabled')\<close> before the compiler
  is called and without any effect, so a fresh request for a module that misses the cache
  sends nothing, stores nothing and hands this error to \<^verbatim>\<open>next\<close>. A request that does not
  get as far as \<^verbatim>\<open>bundleNpmModule\<close> (a failed normalization or resolution, a 304, an asset, a
  cache hit or a failed lookup) is answered as with any other source.
\<close>

theorem unpkg_refused_when_bundling:
  assumes unpkg: "source opts = ''unpkg''"
  shows "bundleNpmModule d modname opts w0 = (Inl (Error ''unpkg plugin is disabled''), w0)
       \<and> (normalizeSpecifier d (strip_leading_slash (pathname req)) = Inr parsed \<longrightarrow>
          resolvePackageVersion d parsed = Inr m \<longrightarrow>
          strip_compression (js_String (if_none_match req)) \<noteq> etag_of m \<longrightarrow>
          \<not> asset_path (path m) \<longrightarrow>
          getCachedBundle d (etag_of m) m (cwd opts) (cache w) = (Inr None, c) \<longrightarrow>
          npmMiddleware d opts req w =
           (Resolved, w\<lparr>cache := c, log := log w @
              [SetHeader ''etag'' (etag_of m),
               SetHeader ''content-type'' ''application/javascript;charset=utf-8'']
              @ (if hasDebugFlag d
                 then [ConsoleLog (''  '' @ kl_dim d ''middleware:''
                                   @ kl_bold d (kl_magenta d ''npm'') @ ''  ''
                                   @ json_stringify (specifier m))]
                 else [])
              @ [CallGetCachedBundle (etag_of m),
                 CallBundleNpmModule (strip_leading_slash (pathname req)),
                 ConsoleError (strip_leading_slash (pathname req))
                   (Error ''unpkg plugin is disabled''),
                 Next (Error ''unpkg plugin is disabled'')]\<rparr>))
       \<and> (\<not> reaches_bundler d opts req w \<longrightarrow>
          npmMiddleware d opts req w = npmMiddleware d (opts\<lparr>source := other\<rparr>) req w)"
proof (intro conjI impI)
  show "bundleNpmModule d modname opts w0 = (Inl (Error ''unpkg plugin is disabled''), w0)"
    using unpkg by (rule bundleNpmModule_unpkg)
next
  assume "normalizeSpecifier d (strip_leading_slash (pathname req)) = Inr parsed"
    and "resolvePackageVersion d parsed = Inr m"
    and "strip_compression (js_String (if_none_match req)) \<noteq> etag_of m"
    and "\<not> asset_path (path m)"
    and "getCachedBundle d (etag_of m) m (cwd opts) (cache w) = (Inr None, c)"
  then show "npmMiddleware d opts req w =
           (Resolved, w\<lparr>cache := c, log := log w @
              [SetHeader ''etag'' (etag_of m),
               SetHeader ''content-type'' ''application/javascript;charset=utf-8'']
              @ (if hasDebugFlag d
                 then [ConsoleLog (''  '' @ kl_dim d ''middleware:''
                                   @ kl_bold d (kl_magenta d ''npm'') @ ''  ''
                                   @ json_stringify (specifier m))]
                 else [])
              @ [CallGetCachedBundle (etag_of m),
                 CallBundleNpmModule (strip_leading_slash (pathname req)),
                 ConsoleError (strip_leading_slash (pathname req))
                   (Error ''unpkg plugin is disabled''),
                 Next (Error ''unpkg plugin is disabled'')]\<rparr>)"
    using unpkg
    by (simp add: bundleNpmModule_unpkg npmMiddleware_def serve_bundle_def report_def emit_def
        debug_line_def Let_def)
next
  assume "\<not> reaches_bundler d opts req w"
  then show "npmMiddleware d opts req w = npmMiddleware d (opts\<lparr>source := other\<rparr>) req w"
    by (simp add: npmMiddleware_source)
qed

theorem unpkg_refused_when_bundling_witness:
  "bundleNpmModule sample_deps ''some-pkg/index.js'' (sample_options\<lparr>source := ''unpkg''\<rparr>)
     sample_world = (Inl (Error ''unpkg plugin is disabled''), sample_world)
   \<and> npmMiddleware sample_deps (sample_options\<lparr>source := ''unpkg''\<rparr>)
       \<lparr>pathname = ''/some-pkg/index.js'', has_module = False, if_none_match = None\<rparr>
       sample_world
     = (Resolved, sample_world\<lparr>log :=
          [SetHeader ''etag'' ''c29tZS1wa2cvaW5kZXguanMxLjMuMA=='',
           SetHeader ''content-type'' ''application/javascript;charset=utf-8'',
           CallGetCachedBundle ''c29tZS1wa2cvaW5kZXguanMxLjMuMA=='',
           CallBundleNpmModule ''some-pkg/index.js'',
           ConsoleError ''some-pkg/index.js'' (Error ''unpkg plugin is disabled''),
           Next (Error ''unpkg plugin is disabled'')]\<rparr>)
   \<and> npmMiddleware sample_deps (sample_options\<lparr>source := ''unpkg''\<rparr>)
       \<lparr>pathname = ''/some-pkg/index.js'', has_module = False, if_none_match = None\<rparr>
       (sample_world\<lparr>cache := [(''c29tZS1wa2cvaW5kZXguanMxLjMuMA=='', ''export default 1;'')]\<rparr>)
     = npmMiddleware sample_deps (sample_options\<lparr>source := ''unpkg'', source := ''npm''\<rparr>)
       \<lparr>pathname = ''/some-pkg/index.js'', has_module = False, if_none_match = None\<rparr>
       (sample_world\<lparr>cache := [(''c29tZS1wa2cvaW5kZXguanMxLjMuMA=='', ''export default 1;'')]\<rparr>)"
proof -
  let ?opts = "sample_options\<lparr>source := ''unpkg''\<rparr>"
  let ?req = "\<lparr>pathname = ''/some-pkg/index.js'', has_module = False, if_none_match = None\<rparr>"
  let ?parsed = "\<lparr>specifier = ''some-pkg/index.js'', version = [], path = ''index.js''\<rparr>"
  let ?resolved = "\<lparr>specifier = ''some-pkg/index.js'', version = ''1.3.0'', path = ''index.js''\<rparr>"
  let ?warm = "sample_world\<lparr>cache := [(''c29tZS1wa2cvaW5kZXguanMxLjMuMA=='', ''export default 1;'')]\<rparr>"
  have 0: "source ?opts = ''unpkg''"
    by simp
  have 1: "normalizeSpecifier sample_deps (strip_leading_slash (pathname ?req)) = Inr ?parsed"
    by code_simp
  have 2: "resolvePackageVersion sample_deps ?parsed = Inr ?resolved"
    by code_simp
  have 3: "strip_compression (js_String (if_none_match ?req)) \<noteq> etag_of ?resolved"
    by code_simp
  have 4: "\<not> asset_path (path ?resolved)"
    by code_simp
  have 5: "getCachedBundle sample_deps (etag_of ?resolved) ?resolved (cwd ?opts)
             (cache sample_world) = (Inr None, [])"
    by code_simp
  have 6: "etag_of ?resolved = ''c29tZS1wa2cvaW5kZXguanMxLjMuMA==''"
    by code_simp
  have 7: "hasDebugFlag sample_deps = False"
    by code_simp
  have 8: "\<not> reaches_bundler sample_deps ?opts ?req ?warm"
    by code_simp
  note all = unpkg_refused_when_bundling [OF 0, where d = sample_deps]
  note refused = all [where modname = "''some-pkg/index.js''" and ?w0.0 = sample_world,
      THEN conjunct1]
  note sent_on = all [where req = ?req and w = sample_world, THEN conjunct2, THEN conjunct1,
      rule_format, OF 1 2 3 4 5]
  note same = all [where req = ?req and w = ?warm and other = "''npm''", THEN conjunct2,
      THEN conjunct2, rule_format, OF 8]
  have second: "npmMiddleware sample_deps ?opts ?req sample_world
     = (Resolved, sample_world\<lparr>log :=
          [SetHeader ''etag'' ''c29tZS1wa2cvaW5kZXguanMxLjMuMA=='',
           SetHeader ''content-type'' ''application/javascript;charset=utf-8'',
           CallGetCachedBundle ''c29tZS1wa2cvaW5kZXguanMxLjMuMA=='',
           CallBundleNpmModule ''some-pkg/index.js'',
           ConsoleError ''some-pkg/index.js'' (Error ''unpkg plugin is disabled''),
           Next (Error ''unpkg plugin is disabled'')]\<rparr>)"
    unfolding sent_on by (simp add: 6 7 sample_world_def)
  show ?thesis
    using refused second same by blast
qed

text \<open>
  The claim as written fails: with the source \<^verbatim>\<open>unpkg\<close> selected, a request for a stylesheet
  is served. The package file is fetched and sent with status 200, and no error is raised.
\<close>

theorem unpkg_asset_request_served:
  "npmMiddleware sample_deps (sample_options\<lparr>source := ''unpkg''\<rparr>)
     \<lparr>pathname = ''/some-pkg/theme.css'', has_module = False, if_none_match = None\<rparr> sample_world
   = (Resolved, sample_world\<lparr>log :=
        [SetHeader ''etag'' ''c29tZS1wa2cvdGhlbWUuY3NzMS4zLjA='',
         CallLoadPackageFile
           \<lparr>specifier = ''some-pkg/theme.css'', version = ''1.3.0'', path = ''theme.css''\<rparr>,
         WriteHead 200 [(''content-type'', HStr ''text/css''), (''content-length'', HNum 14)],
         End (Some ''body{margin:0}'')]\<rparr>)"
  by code_simp


text \<open>
  Claim C10. When a fresh module request misses the cache and the build succeeds, the body sent
  and the code given to \<^verbatim>\<open>setCachedBundle\<close> are both \<^verbatim>\<open>output[0].code\<close>, with its length as
  \<^verbatim>\<open>content-length\<close>; whatever chunks follow the first are neither sent nor stored.
\<close>

theorem first_chunk_served_and_stored:
  assumes norm: "normalizeSpecifier d (strip_leading_slash (pathname req)) = Inr parsed"
    and res: "resolvePackageVersion d parsed = Inr m"
    and fresh: "strip_compression (js_String (if_none_match req)) \<noteq> etag_of m"
    and js: "\<not> asset_path (path m)"
    and miss: "getCachedBundle d (etag_of m) m (cwd opts) (cache w) = (Inr None, c)"
    and npm: "source opts \<noteq> ''unpkg''"
    and built: "rollup d \<lparr>input = strip_leading_slash (pathname req), cache_option = npmCache w,
                  shimMissingExports = True, treeshake = False,
                  preserveEntrySignatures = ''allow-extension'',
                  plugins = bundle_plugins d opts\<rparr> = Inr b"
    and generated: "generate b \<lparr>format = ''es'', indent = False\<rparr> = Inr (first # others)"
  shows "sent (new_events w (snd (npmMiddleware d opts req w))) = [Some (code first)]
       \<and> stored (new_events w (snd (npmMiddleware d opts req w))) = [(etag_of m, code first)]
       \<and> WriteHead 200 [(''content-length'', HNum (length (code first)))]
           \<in> set (new_events w (snd (npmMiddleware d opts req w)))
       \<and> cache (snd (npmMiddleware d opts req w))
           = (case setCachedBundle d (etag_of m) (code first) m (cwd opts) c of
                Inl e \<Rightarrow> c | Inr c' \<Rightarrow> c')"
  using assms
  by (simp add: npmMiddleware_def serve_bundle_def bundleNpmModule_def report_def emit_def
      new_events_def Let_def split: sum.splits)

theorem first_chunk_served_and_stored_witness:
  "sent (new_events sample_world (snd (npmMiddleware sample_deps sample_options
      \<lparr>pathname = ''/left-pad/index.js'', has_module = False, if_none_match = None\<rparr>
      sample_world))) = [Some ''export default 1;'']
   \<and> stored (new_events sample_world (snd (npmMiddleware sample_deps sample_options
      \<lparr>pathname = ''/left-pad/index.js'', has_module = False, if_none_match = None\<rparr>
      sample_world))) = [(''bGVmdC1wYWQvaW5kZXguanMxLjMuMA=='', ''export default 1;'')]
   \<and> cache (snd (npmMiddleware sample_deps sample_options
      \<lparr>pathname = ''/left-pad/index.js'', has_module = False, if_none_match = None\<rparr>
      sample_world)) = [(''bGVmdC1wYWQvaW5kZXguanMxLjMuMA=='', ''export default 1;'')]"
proof -
  let ?req = "\<lparr>pathname = ''/left-pad/index.js'', has_module = False, if_none_match = None\<rparr>"
  let ?parsed = "\<lparr>specifier = ''left-pad/index.js'', version = [], path = ''index.js''\<rparr>"
  let ?resolved = "\<lparr>specifier = ''left-pad/index.js'', version = ''1.3.0'', path = ''index.js''\<rparr>"
  let ?b = "\<lparr>bundle_cache = Some (1::nat),
             generate = (\<lambda>oo::output_options. if ''left-pad/index.js'' = ''halfway/index.js''
                          then Inl (Error ''generate failed'')
                          else Inr [\<lparr>code = ''export default 1;''\<rparr>,
                                    \<lparr>code = ''export const extra = 2;''\<rparr>])\<rparr>"
  have 1: "normalizeSpecifier sample_deps (strip_leading_slash (pathname ?req)) = Inr ?parsed"
    by code_simp
  have 2: "resolvePackageVersion sample_deps ?parsed = Inr ?resolved"
    by code_simp
  have 3: "strip_compression (js_String (if_none_match ?req)) \<noteq> etag_of ?resolved"
    by code_simp
  have 4: "\<not> asset_path (path ?resolved)"
    by code_simp
  have 5: "getCachedBundle sample_deps (etag_of ?resolved) ?resolved (cwd sample_options)
             (cache sample_world) = (Inr None, [])"
    by code_simp
  have 6: "source sample_options \<noteq> ''unpkg''"
    by code_simp
  have 7: "rollup sample_deps \<lparr>input = strip_leading_slash (pathname ?req),
                  cache_option = npmCache sample_world,
                  shimMissingExports = True, treeshake = False,
                  preserveEntrySignatures = ''allow-extension'',
                  plugins = bundle_plugins sample_deps sample_options\<rparr> = Inr ?b"
    by (simp add: sample_deps_def sample_rollup_def sample_world_def)
  have 8: "generate ?b \<lparr>format = ''es'', indent = False\<rparr>
           = Inr (\<lparr>code = ''export default 1;''\<rparr> # [\<lparr>code = ''export const extra = 2;''\<rparr>])"
    by simp
  have 9: "etag_of ?resolved = ''bGVmdC1wYWQvaW5kZXguanMxLjMuMA==''"
    by code_simp
  have 10: "setCachedBundle sample_deps ''bGVmdC1wYWQvaW5kZXguanMxLjMuMA=='' ''export default 1;''
              ?resolved (cwd sample_options) []
            = Inr [(''bGVmdC1wYWQvaW5kZXguanMxLjMuMA=='', ''export default 1;'')]"
    by (simp add: sample_deps_def)
  from first_chunk_served_and_stored [OF 1 2 3 4 5 6 7 8]
  show ?thesis
    by (simp add: 9 10)
qed

lemma normalize_failure_rejects:
  "normalizeSpecifier d (strip_leading_slash (pathname req)) = Inl e \<Longrightarrow>
   npmMiddleware d opts req w = (Rejected e, w)"
  by (simp add: npmMiddleware_def)

lemma resolve_failure_goes_to_next:
  "normalizeSpecifier d (strip_leading_slash (pathname req)) = Inr parsed \<Longrightarrow>
   resolvePackageVersion d parsed = Inl e \<Longrightarrow>
   npmMiddleware d opts req w = (Resolved, w\<lparr>log := log w @ [Next e]\<rparr>)"
  by (simp add: npmMiddleware_def emit_def)

text \<open>
  Claim C7 at a request whose specifier \<^verbatim>\<open>normalizeSpecifier\<close> rejects (\<^verbatim>\<open>GET /\<close>): the handler's
  promise is rejected with the error, and \<^verbatim>\<open>next\<close> is not called: the log stays empty.
\<close>

theorem normalize_failure_bypasses_next:
  "npmMiddleware sample_deps sample_options
     \<lparr>pathname = ''/'', has_module = False, if_none_match = None\<rparr> sample_world
   = (Rejected (Error ''Invalid specifier''), sample_world)
   \<and> reported (log (snd (npmMiddleware sample_deps sample_options
         \<lparr>pathname = ''/'', has_module = False, if_none_match = None\<rparr> sample_world))) = []"
  by code_simp

lemma guard_rejects_outside_prefix:
  assumes "\<not> starts_with (path_join root ident) root"
  shows "load_first [\<lparr>name = ''npm-asset'', load = npm_asset_load (Some root)\<rparr>,
                     \<lparr>name = ''never-disk'', load = never_disk_load\<rparr>] ident
         = ([''DONT LOAD '' @ ident, ''LOADING '' @ json_stringify ident],
            Throws (Error ''local access not allowed''))"
  using assms by (simp add: npm_asset_load_def never_disk_load_def Let_def)

text \<open>
  Claim C3 at the root \<^verbatim>\<open>/app\<close> and the load request \<^verbatim>\<open>../app-secret/x\<close>: the joined path
  \<^verbatim>\<open>/app-secret/x\<close> is outside the root, yet it begins with the text \<^verbatim>\<open>/app\<close>, so the
  \<^verbatim>\<open>npm-asset\<close> stage answers the request with a module and \<^verbatim>\<open>never-disk\<close> is not reached: no
  error is thrown and the build goes on.
\<close>

theorem guard_accepts_sibling_directory:
  "path_join ''/app'' ''../app-secret/x'' = ''/app-secret/x''
   \<and> inside_root ''/app'' ''/app-secret/x'' = False
   \<and> cwd sample_options = Some ''/app''
   \<and> load_first (bundle_plugins sample_deps sample_options) ''../app-secret/x''
     = ([], Loaded (''export default '' @ [CHR 0x22] @ ''../app-secret/x'' @ [CHR 0x22] @ '';''))"
  by code_simp


end
